theory Spec2Isabelle
  imports Main "HOL-Library.Sublist" "HOL-Library.Multiset"
begin

section \<open>Data model\<close>

text \<open>
  The script \<^verbatim>\<open>update-readme-with-issues.js\<close> receives issues as parsed JSON. Text is
  modelled as \<^typ>\<open>string\<close>, read as the well-formed UTF-8 bytes of the JavaScript string;
  characters outside ASCII (the emoji of the headings, the white space that \<^verbatim>\<open>trim\<close> removes)
  are written byte by byte.

  The \<^verbatim>\<open>name\<close> property of a label object, as the code tells its values apart: a string;
  missing or another falsy value (\<^verbatim>\<open>undefined\<close>, \<^verbatim>\<open>null\<close>, \<^verbatim>\<open>false\<close>, \<^verbatim>\<open>0\<close>); or a truthy value
  that is not a string (a number, \<^verbatim>\<open>true\<close>, an array, an object), kept with the text that
  \<^verbatim>\<open>join\<close> prints for it.
\<close>

datatype name_field =
    NameString string
  | NameMissing
  | NameOther string

text \<open>
  A label entry of \<^verbatim>\<open>issue.labels\<close> is a bare string, an object, or something that is
  neither (\<^verbatim>\<open>null\<close>, \<^verbatim>\<open>undefined\<close>, a number, a boolean: \<^verbatim>\<open>l?.name\<close> is \<^verbatim>\<open>undefined\<close> for all
  of these).
\<close>

datatype label =
    LabelString string
  | LabelObject name_field
  | LabelOther

datatype js_error = TypeError

text \<open>
  \<^verbatim>\<open>new Date(issue.closed_at)\<close>: a timestamp string denotes its milliseconds since the epoch,
  \<^verbatim>\<open>null\<close> gives the epoch itself, a missing property or an unparsable string gives an
  invalid date, whose comparison with any date is false.
\<close>

datatype closed_at =
    ClosedAt int
  | ClosedNull
  | ClosedInvalid

record user =
  login :: string

text \<open>
  \<open>labels\<close> is \<open>None\<close> when the property is missing or \<^verbatim>\<open>null\<close>; \<open>pull_request\<close> is the
  truthiness of the property of that name; \<open>state\<close> stays a string because the code
  compares it with \<^verbatim>\<open>'open'\<close> and sends every other value to the closed bucket.
\<close>

record issue =
  number :: nat
  title :: string
  state :: string
  labels :: "label list option"
  assignee :: "user option"
  closed_at :: closed_at
  html_url :: string
  pull_request :: bool

record categories =
  open_issues :: "issue list"
  closed :: "issue list"
  bugs :: "issue list"
  enhancements :: "issue list"
  documentation :: "issue list"
  help_wanted :: "issue list"
  good_first_issue :: "issue list"

record repoInfo =
  owner :: string
  repo :: string

section \<open>String primitives of the platform\<close>

text \<open>
  \<^verbatim>\<open>String.prototype.toLowerCase\<close> on the ASCII letters. The two characters outside ASCII
  whose lower case contains an ASCII letter (U+0130, U+212A) give \<^verbatim>\<open>i\<close> followed by a
  combining dot, and \<^verbatim>\<open>k\<close>; no keyword of the categorizer has a \<^verbatim>\<open>k\<close> or an \<^verbatim>\<open>i\<close> in last
  position, so keyword containment is the same on the bytes.
\<close>

definition lowerChar :: "char \<Rightarrow> char" where
  "lowerChar c =
     (if 65 \<le> (of_char c :: nat) \<and> (of_char c :: nat) \<le> 90
      then char_of (of_char c + (32 :: nat)) else c)"

definition toLowerCase :: "string \<Rightarrow> string" where
  "toLowerCase s = map lowerChar s"

text \<open>\<^verbatim>\<open>s.includes(k)\<close>: \<open>k\<close> occurs in \<open>s\<close> as a contiguous block.\<close>

definition includesJS :: "string \<Rightarrow> string \<Rightarrow> bool" where
  "includesJS s k = sublist k s"

section \<open>The categorizer\<close>

text \<open>
  Lines 131--133: \<^verbatim>\<open>typeof label === 'string' ? label.toLowerCase()
  : (label?.name || '').toLowerCase()\<close>. The empty string is falsy, so an empty name takes
  the \<^verbatim>\<open>''\<close> branch as well. A truthy name that is not a string has no \<^verbatim>\<open>toLowerCase\<close>:
  the call throws a \<^verbatim>\<open>TypeError\<close>.
\<close>

fun labelLower :: "label \<Rightarrow> js_error + string" where
  "labelLower (LabelString s) = Inr (toLowerCase s)"
| "labelLower (LabelObject (NameString n)) = Inr (toLowerCase (if n = [] then [] else n))"
| "labelLower (LabelObject NameMissing) = Inr (toLowerCase [])"
| "labelLower (LabelObject (NameOther v)) = Inl TypeError"
| "labelLower LabelOther = Inr (toLowerCase [])"

text \<open>\<^verbatim>\<open>Array.prototype.map\<close> with that callback: the first exception ends it.\<close>

fun mapLabels :: "label list \<Rightarrow> js_error + string list" where
  "mapLabels [] = Inr []"
| "mapLabels (l # ls) =
     (case labelLower l of
        Inl e \<Rightarrow> Inl e
      | Inr s \<Rightarrow> (case mapLabels ls of Inl e \<Rightarrow> Inl e | Inr ss \<Rightarrow> Inr (s # ss)))"

definition lowerLabels :: "issue \<Rightarrow> js_error + string list" where
  "lowerLabels i = mapLabels (case labels i of None \<Rightarrow> [] | Some ls \<Rightarrow> ls)"

definition emptyCategories :: categories where
  "emptyCategories =
     \<lparr>open_issues = [], closed = [], bugs = [], enhancements = [], documentation = [],
      help_wanted = [], good_first_issue = []\<rparr>"

text \<open>Lines 135--153: the five label tests on the lower-cased label names \<open>ls\<close>.\<close>

definition pushByLabels :: "categories \<Rightarrow> issue \<Rightarrow> string list \<Rightarrow> categories" where
  "pushByLabels c1 i ls =
     (let c2 = (if list_ex (\<lambda>l. includesJS l ''bug'' \<or> includesJS l ''error'' \<or> includesJS l ''fix'') ls
                  then c1\<lparr>bugs := bugs c1 @ [i]\<rparr> else c1);
            c3 = (if list_ex (\<lambda>l. includesJS l ''enhancement'' \<or> includesJS l ''feature''
                                  \<or> includesJS l ''improvement'') ls
                  then c2\<lparr>enhancements := enhancements c2 @ [i]\<rparr> else c2);
            c4 = (if list_ex (\<lambda>l. includesJS l ''documentation'' \<or> includesJS l ''docs'') ls
                  then c3\<lparr>documentation := documentation c3 @ [i]\<rparr> else c3);
            c5 = (if list_ex (\<lambda>l. includesJS l ''help wanted'' \<or> includesJS l ''help-wanted'') ls
                  then c4\<lparr>help_wanted := help_wanted c4 @ [i]\<rparr> else c4)
        in (if list_ex (\<lambda>l. includesJS l ''good first issue'' \<or> includesJS l ''beginner'') ls
            then c5\<lparr>good_first_issue := good_first_issue c5 @ [i]\<rparr> else c5))"

text \<open>
  The body of the \<^verbatim>\<open>forEach\<close> callback (lines 117--154); \<^verbatim>\<open>push\<close> appends at the end. An
  exception thrown while the labels are mapped leaves the callback.
\<close>

definition categorizeOne :: "categories \<Rightarrow> issue \<Rightarrow> js_error + categories" where
  "categorizeOne c i =
     (if pull_request i then Inr c
      else
        let c1 = (if state i = ''open''
                  then c\<lparr>open_issues := open_issues c @ [i]\<rparr>
                  else c\<lparr>closed := closed c @ [i]\<rparr>)
        in case lowerLabels i of
             Inl e \<Rightarrow> Inl e
           | Inr ls \<Rightarrow> Inr (pushByLabels c1 i ls))"

text \<open>\<^verbatim>\<open>issues.forEach\<close>: an exception in the callback ends the loop and the function.\<close>

fun categorizeFrom :: "categories \<Rightarrow> issue list \<Rightarrow> js_error + categories" where
  "categorizeFrom c [] = Inr c"
| "categorizeFrom c (i # rest) =
     (case categorizeOne c i of Inl e \<Rightarrow> Inl e | Inr c' \<Rightarrow> categorizeFrom c' rest)"

definition categorizeIssues :: "issue list \<Rightarrow> js_error + categories" where
  "categorizeIssues issues = categorizeFrom emptyCategories issues"

section \<open>The section renderer\<close>

text \<open>A template literal prints a number in decimal.\<close>

definition digitChar :: "nat \<Rightarrow> char" where
  "digitChar d = char_of (48 + d)"

fun showNat :: "nat \<Rightarrow> string" where
  "showNat n = (if n < 10 then [digitChar n] else showNat (n div 10) @ [digitChar (n mod 10)])"

declare showNat.simps [simp del]

text \<open>\<^verbatim>\<open>Array.prototype.join\<close>.\<close>

fun joinJS :: "string \<Rightarrow> string list \<Rightarrow> string" where
  "joinJS sep [] = []"
| "joinJS sep [x] = x"
| "joinJS sep (x # y # ys) = x @ sep @ joinJS sep (y # ys)"

definition nl :: string where
  "nl = [CHR 0x0A]"

definition iconOpen :: string where
  "iconOpen = [CHR 0xF0, CHR 0x9F, CHR 0x94, CHR 0x93]"

definition iconClosed :: string where
  "iconClosed = [CHR 0xF0, CHR 0x9F, CHR 0x94, CHR 0x92]"

text \<open>
  Line 166: \<^verbatim>\<open>typeof l === 'string' ? l : (l?.name || 'unknown')\<close>, as \<^verbatim>\<open>join\<close> prints it. No
  operation of this line throws, whatever the entry is.
\<close>

fun labelShown :: "label \<Rightarrow> string" where
  "labelShown (LabelString s) = s"
| "labelShown (LabelObject (NameString n)) = (if n = [] then ''unknown'' else n)"
| "labelShown (LabelObject NameMissing) = ''unknown''"
| "labelShown (LabelObject (NameOther v)) = v"
| "labelShown LabelOther = ''unknown''"

text \<open>Lines 159--175. The parameter \<open>includeState\<close> defaults to true at the call sites that
  give one argument.\<close>

definition formatIssueForReadme :: "issue \<Rightarrow> bool \<Rightarrow> string" where
  "formatIssueForReadme i includeState =
     (let st = (if state i = ''open'' then iconOpen else iconClosed);
          stateText = (if includeState then '' '' @ st else []);
          ls = (case labels i of None \<Rightarrow> [] | Some l \<Rightarrow> l);
          labelText = (if length ls > 0
                       then '' `'' @ joinJS ''`, `'' (map labelShown ls) @ ''`''
                       else []);
          asg = (case assignee i of
                   Some u \<Rightarrow> '' - Assigned to @'' @ login u
                 | None \<Rightarrow> [])
      in ''- [#'' @ showNat (number i) @ '']('' @ html_url i @ '')'' @ stateText
         @ '' **'' @ title i @ ''**'' @ labelText @ asg)"

text \<open>
  The clock. Every \<^verbatim>\<open>new Date()\<close> reads it again, so a run of the renderer sees a sequence
  of readings in milliseconds since the epoch: \<open>clk k\<close> is the reading of the \<open>k\<close>-th call.
  \<^verbatim>\<open>toISOString\<close> is a parameter of the renderer, and so is \<open>minus30Days\<close>: the instant that
  \<^verbatim>\<open>d.setDate(d.getDate() - 30)\<close> leaves in \<^verbatim>\<open>d\<close>, as a function of the instant \<^verbatim>\<open>d\<close> held
  before. It is the same local time of day 30 calendar days earlier in the time zone of the
  host, so it depends on that zone and its daylight-saving changes.
\<close>

type_synonym clock = "nat \<Rightarrow> int"

definition markerText :: string where
  "markerText = ''## '' @ [CHR 0xF0, CHR 0x9F, CHR 0x93, CHR 0x8B] @ '' Current Issues''"

text \<open>Lines 185--191.\<close>

definition sectionHeader :: "string \<Rightarrow> categories \<Rightarrow> repoInfo \<Rightarrow> string" where
  "sectionHeader timestamp c r =
     (let openCount = length (open_issues c);
          closedCount = length (closed c);
          totalCount = openCount + closedCount
      in markerText @ nl @ nl
         @ ''> **Repository:** ['' @ owner r @ ''/'' @ repo r @ ''](https://github.com/''
         @ owner r @ ''/'' @ repo r @ '')  '' @ nl
         @ ''> **Last Updated:** '' @ timestamp @ ''  '' @ nl
         @ ''> **Total Issues:** '' @ showNat totalCount @ '' ('' @ showNat openCount
         @ '' open, '' @ showNat closedCount @ '' closed)'' @ nl @ nl)"

text \<open>Lines 193--207.\<close>

definition addOpenIssues :: "categories \<Rightarrow> repoInfo \<Rightarrow> string \<Rightarrow> string" where
  "addOpenIssues c r section =
     (if length (open_issues c) > 0 then
        let s1 = section @ ''### '' @ iconOpen @ '' Open Issues (''
                   @ showNat (length (open_issues c)) @ '')'' @ nl @ nl;
            s2 = foldl (\<lambda>s i. s @ formatIssueForReadme i False @ nl) s1
                   (take 20 (open_issues c));
            s3 = (if length (open_issues c) > 20
                  then s2 @ nl @ ''... and '' @ showNat (length (open_issues c) - 20)
                       @ '' more open issues. [View all open issues](https://github.com/''
                       @ owner r @ ''/'' @ repo r @ ''/issues?q=is%3Aissue+is%3Aopen)'' @ nl
                  else s2)
        in s3 @ nl
      else section)"

text \<open>Lines 210--218.\<close>

definition addBugReports :: "categories \<Rightarrow> string \<Rightarrow> string" where
  "addBugReports c section =
     (if length (bugs c) > 0 then
        let s1 = section @ ''### '' @ [CHR 0xF0, CHR 0x9F, CHR 0x90, CHR 0x9B]
                   @ '' Bug Reports ('' @ showNat (length (bugs c)) @ '')'' @ nl @ nl;
            s2 = foldl (\<lambda>s i. s @ formatIssueForReadme i True @ nl) s1 (take 10 (bugs c))
        in s2 @ nl
      else section)"

text \<open>Lines 220--228.\<close>

definition addEnhancements :: "categories \<Rightarrow> string \<Rightarrow> string" where
  "addEnhancements c section =
     (if length (enhancements c) > 0 then
        let s1 = section @ ''### '' @ [CHR 0xE2, CHR 0x9C, CHR 0xA8]
                   @ '' Feature Requests & Enhancements (''
                   @ showNat (length (enhancements c)) @ '')'' @ nl @ nl;
            s2 = foldl (\<lambda>s i. s @ formatIssueForReadme i True @ nl) s1
                   (take 10 (enhancements c))
        in s2 @ nl
      else section)"

text \<open>Lines 230--238.\<close>

definition addHelpWanted :: "categories \<Rightarrow> string \<Rightarrow> string" where
  "addHelpWanted c section =
     (if length (help_wanted c) > 0 then
        let s1 = section @ ''### '' @ [CHR 0xF0, CHR 0x9F, CHR 0x86, CHR 0x98]
                   @ '' Help Wanted ('' @ showNat (length (help_wanted c)) @ '')'' @ nl @ nl;
            s2 = foldl (\<lambda>s i. s @ formatIssueForReadme i True @ nl) s1
                   (take 5 (help_wanted c))
        in s2 @ nl
      else section)"

text \<open>Lines 240--248: no cap.\<close>

definition addGoodFirstIssues :: "categories \<Rightarrow> string \<Rightarrow> string" where
  "addGoodFirstIssues c section =
     (if length (good_first_issue c) > 0 then
        let s1 = section @ ''### '' @ [CHR 0xF0, CHR 0x9F, CHR 0x8C, CHR 0x9F]
                   @ '' Good First Issues ('' @ showNat (length (good_first_issue c)) @ '')''
                   @ nl @ nl;
            s2 = foldl (\<lambda>s i. s @ formatIssueForReadme i True @ nl) s1 (good_first_issue c)
        in s2 @ nl
      else section)"

text \<open>
  Lines 252--257, the filter callback at one clock reading \<open>now\<close>. A comparison with an
  invalid date is false.
\<close>

definition closedRecently :: "(int \<Rightarrow> int) \<Rightarrow> int \<Rightarrow> issue \<Rightarrow> bool" where
  "closedRecently minus30Days now i =
     (let thirtyDaysAgo = minus30Days now
      in case closed_at i of
           ClosedAt t \<Rightarrow> t > thirtyDaysAgo
         | ClosedNull \<Rightarrow> 0 > thirtyDaysAgo
         | ClosedInvalid \<Rightarrow> False)"

text \<open>\<^verbatim>\<open>categories.closed.filter(...)\<close>: the callback reads the clock once for each element;
  the result carries the index of the next reading.\<close>

fun filterRecent ::
  "(int \<Rightarrow> int) \<Rightarrow> clock \<Rightarrow> nat \<Rightarrow> issue list \<Rightarrow> issue list \<times> nat" where
  "filterRecent minus30Days clk k [] = ([], k)"
| "filterRecent minus30Days clk k (i # xs) =
     (let keep = closedRecently minus30Days (clk k) i;
          (rest, k') = filterRecent minus30Days clk (Suc k) xs
      in (if keep then i # rest else rest, k'))"

text \<open>Lines 260--268.\<close>

definition addRecentlyClosed :: "issue list \<Rightarrow> string \<Rightarrow> string" where
  "addRecentlyClosed recentlyClosed section =
     (if length recentlyClosed > 0 then
        let s1 = section @ ''### '' @ [CHR 0xE2, CHR 0x9C, CHR 0x85]
                   @ '' Recently Closed Issues ('' @ showNat (length recentlyClosed) @ '')''
                   @ nl @ nl;
            s2 = foldl (\<lambda>s i. s @ formatIssueForReadme i True @ nl) s1 recentlyClosed
        in s2 @ nl
      else section)"

text \<open>Lines 271--288, up to the generation timestamp, and what follows it.\<close>

definition statisticsTable :: "categories \<Rightarrow> string" where
  "statisticsTable c =
     (let openCount = length (open_issues c);
          closedCount = length (closed c);
          totalCount = openCount + closedCount
      in ''### '' @ [CHR 0xF0, CHR 0x9F, CHR 0x93, CHR 0x8A] @ '' Issue Statistics'' @ nl @ nl
         @ ''| Category | Count |'' @ nl
         @ ''|----------|-------|'' @ nl
         @ ''| Total Issues | '' @ showNat totalCount @ '' |'' @ nl
         @ ''| Open Issues | '' @ showNat openCount @ '' |'' @ nl
         @ ''| Closed Issues | '' @ showNat closedCount @ '' |'' @ nl
         @ ''| Bug Reports | '' @ showNat (length (bugs c)) @ '' |'' @ nl
         @ ''| Feature Requests | '' @ showNat (length (enhancements c)) @ '' |'' @ nl
         @ ''| Documentation | '' @ showNat (length (documentation c)) @ '' |'' @ nl
         @ ''| Help Wanted | '' @ showNat (length (help_wanted c)) @ '' |'' @ nl
         @ ''| Good First Issues | '' @ showNat (length (good_first_issue c)) @ '' |'' @ nl
         @ nl @ ''---'' @ nl @ nl
         @ ''*This section is automatically updated by GitHub Actions using the ''
         @ ''[GitHub MCP Server](https://github.com/github/github-mcp-server). Last update: '')"

definition sectionFooter :: string where
  "sectionFooter = ''*'' @ nl @ nl"

text \<open>
  Lines 177--291. The clock is read at line 179 (reading 0), once for each closed issue in
  the filter (from reading 1 on), and at line 286. \<^verbatim>\<open>split('T')[0]\<close> is the text before the
  first \<^verbatim>\<open>T\<close>.
\<close>

definition generateIssuesSection ::
  "(int \<Rightarrow> string) \<Rightarrow> (int \<Rightarrow> int) \<Rightarrow> clock \<Rightarrow> categories \<Rightarrow> repoInfo \<Rightarrow> string" where
  "generateIssuesSection toISOString minus30Days clk c r =
     (let timestamp = takeWhile (\<lambda>ch. ch \<noteq> CHR ''T'') (toISOString (clk 0));
          s0 = sectionHeader timestamp c r;
          s1 = addOpenIssues c r s0;
          s2 = addBugReports c s1;
          s3 = addEnhancements c s2;
          s4 = addHelpWanted c s3;
          s5 = addGoodFirstIssues c s4;
          (recent, k) = filterRecent minus30Days clk 1 (closed c);
          recentlyClosed = take 10 recent;
          s6 = addRecentlyClosed recentlyClosed s5
      in s6 @ statisticsTable c @ toISOString (clk k) @ sectionFooter)"

section \<open>The document updater\<close>

text \<open>
  \<^verbatim>\<open>String.prototype.trim\<close> removes white space and line terminators at both ends: tab, line
  feed, vertical tab, form feed, carriage return, space, and outside ASCII the no-break
  space U+00A0, U+1680, U+2000 to U+200A, the line and paragraph separators U+2028 and
  U+2029, U+202F, U+205F, U+3000 and the byte order mark U+FEFF. \<open>whiteSpaceCodes\<close> lists
  their UTF-8 encodings. In well-formed UTF-8 an encoding of one of them at the start or at
  the end of a text is that character.
\<close>

definition whiteSpaceCodes :: "string list" where
  "whiteSpaceCodes =
     [[CHR 0x09], [CHR 0x0A], [CHR 0x0B], [CHR 0x0C], [CHR 0x0D], [CHR 0x20],
      [CHR 0xC2, CHR 0xA0],
      [CHR 0xE1, CHR 0x9A, CHR 0x80],
      [CHR 0xE2, CHR 0x80, CHR 0x80], [CHR 0xE2, CHR 0x80, CHR 0x81],
      [CHR 0xE2, CHR 0x80, CHR 0x82], [CHR 0xE2, CHR 0x80, CHR 0x83],
      [CHR 0xE2, CHR 0x80, CHR 0x84], [CHR 0xE2, CHR 0x80, CHR 0x85],
      [CHR 0xE2, CHR 0x80, CHR 0x86], [CHR 0xE2, CHR 0x80, CHR 0x87],
      [CHR 0xE2, CHR 0x80, CHR 0x88], [CHR 0xE2, CHR 0x80, CHR 0x89],
      [CHR 0xE2, CHR 0x80, CHR 0x8A],
      [CHR 0xE2, CHR 0x80, CHR 0xA8], [CHR 0xE2, CHR 0x80, CHR 0xA9],
      [CHR 0xE2, CHR 0x80, CHR 0xAF],
      [CHR 0xE2, CHR 0x81, CHR 0x9F],
      [CHR 0xE3, CHR 0x80, CHR 0x80],
      [CHR 0xEF, CHR 0xBB, CHR 0xBF]]"

text \<open>Removes the given codes from the start of a text as long as one of them is there.\<close>

function dropLeading :: "string list \<Rightarrow> string \<Rightarrow> string" where
  "dropLeading codes s =
     (case find (\<lambda>w. w \<noteq> [] \<and> prefix w s) codes of
        None \<Rightarrow> s
      | Some w \<Rightarrow> dropLeading codes (drop (length w) s))"
  by pat_completeness auto
termination
proof (relation "measure (\<lambda>(codes, s). length s)")
  show "wf (measure (\<lambda>(codes, s). length s))" by simp
next
  fix codes :: "string list" and s w :: string
  assume "find (\<lambda>w. w \<noteq> [] \<and> prefix w s) codes = Some w"
  then have "w \<noteq> []" "prefix w s" by (auto simp: find_Some_iff)
  then have "0 < length w" "length w \<le> length s" by (auto dest: prefix_length_le)
  then have "length s - length w < length s" by arith
  then show "((codes, drop (length w) s), (codes, s)) \<in> measure (\<lambda>(codes, s). length s)"
    by simp
qed

declare dropLeading.simps [simp del]

definition trimStart :: "string \<Rightarrow> string" where
  "trimStart s = dropLeading whiteSpaceCodes s"

definition trimEnd :: "string \<Rightarrow> string" where
  "trimEnd s = rev (dropLeading (map rev whiteSpaceCodes) (rev s))"

definition trim :: "string \<Rightarrow> string" where
  "trim s = trimEnd (trimStart s)"

text \<open>
  Line 311: \<^verbatim>\<open>/## <clipboard> Current Issues[\s\S]*?(?=##|$)/\<close>, without flags, so \<^verbatim>\<open>$\<close> is
  the end of the input. After the literal, the lazy \<^verbatim>\<open>[\s\S]*?\<close> takes the fewest characters
  that bring it in front of two hash signs or to the end of the input:
  \<open>skipToHashes\<close> returns what is left from there.
\<close>

fun skipToHashes :: "string \<Rightarrow> string" where
  "skipToHashes [] = []"
| "skipToHashes (ch # cs) = (if prefix ''##'' (ch # cs) then ch # cs else skipToHashes cs)"

text \<open>
  Line 312: \<^verbatim>\<open>readmeContent.replace(issuesSectionRegex, '')\<close> deletes the leftmost match
  only. The tail of the pattern matches everywhere, so the leftmost match starts at the
  leftmost occurrence of the literal.
\<close>

fun removeIssuesSection :: "string \<Rightarrow> string" where
  "removeIssuesSection [] = []"
| "removeIssuesSection (ch # cs) =
     (if prefix markerText (ch # cs) then skipToHashes (drop (length markerText) (ch # cs))
      else ch # removeIssuesSection cs)"

definition placeholderReadme :: string where
  "placeholderReadme = ''# Project Title'' @ nl @ nl @ ''Welcome to this project!'' @ nl @ nl"

text \<open>
  Lines 293--319. The file system is outside: the first argument is the content of
  \<^verbatim>\<open>README.md\<close>, \<open>None\<close> when reading it fails; the result is the text written back.
\<close>

definition updateReadme :: "string option \<Rightarrow> string \<Rightarrow> string" where
  "updateReadme file issuesSection =
     (let readmeContent = (case file of Some txt \<Rightarrow> txt | None \<Rightarrow> placeholderReadme);
          readmeContent = removeIssuesSection readmeContent
      in trim readmeContent @ nl @ nl @ issuesSection)"

section \<open>The issue fetcher\<close>

text \<open>
  One call of the \<^verbatim>\<open>list_issues\<close> tool: the call (or parsing its text) throws, the result
  has no text content, or the text parses to a list of issues.
\<close>

datatype 'a response =
    Throws
  | NoText
  | Page "'a list"

datatype fetch_error = ToolError

definition perPage :: nat where
  "perPage = 100"

text \<open>
  Lines 69--100, \<^verbatim>\<open>while (true)\<close>. The issue source answers a request \<open>(page, perPage)\<close>;
  the loop carries the page number, the issues so far and the requests made so far. The
  loop has no bound, so it is a partial function: \<open>None\<close> is a run that never returns.
\<close>

partial_function (option) fetchLoop ::
  "(nat \<Rightarrow> nat \<Rightarrow> 'a response) \<Rightarrow> nat \<Rightarrow> 'a list \<Rightarrow> (nat \<times> nat) list
     \<Rightarrow> ((fetch_error + 'a list) \<times> (nat \<times> nat) list) option" where
  "fetchLoop src page allIssues reqs =
     (case src page perPage of
        Throws \<Rightarrow> Some (Inl ToolError, reqs @ [(page, perPage)])
      | NoText \<Rightarrow> Some (Inr allIssues, reqs @ [(page, perPage)])
      | Page issues \<Rightarrow>
          if length issues = 0 then Some (Inr allIssues, reqs @ [(page, perPage)])
          else if length issues < perPage
               then Some (Inr (allIssues @ issues), reqs @ [(page, perPage)])
               else fetchLoop src (page + 1) (allIssues @ issues) (reqs @ [(page, perPage)]))"

definition fetchAllIssues ::
  "(nat \<Rightarrow> nat \<Rightarrow> 'a response)
     \<Rightarrow> ((fetch_error + 'a list) \<times> (nat \<times> nat) list) option" where
  "fetchAllIssues src = fetchLoop src 1 [] []"

section \<open>Notions used to state the properties\<close>

definition labelsOf :: "issue \<Rightarrow> label list" where
  "labelsOf i = (case labels i of None \<Rightarrow> [] | Some ls \<Rightarrow> ls)"

text \<open>
  The display name of a label: the bare string, or the name field of the object (for a
  name that is not a string, the text it prints as).
\<close>

fun labelName :: "label \<Rightarrow> string" where
  "labelName (LabelString s) = s"
| "labelName (LabelObject (NameString n)) = n"
| "labelName (LabelObject NameMissing) = []"
| "labelName (LabelObject (NameOther v)) = v"
| "labelName LabelOther = []"

definition lowerName :: "label \<Rightarrow> string" where
  "lowerName l = toLowerCase (labelName l)"

text \<open>The entries on which line 132 throws, and the inputs on which the categorizer does.\<close>

fun throwingLabel :: "label \<Rightarrow> bool" where
  "throwingLabel (LabelObject (NameOther v)) = True"
| "throwingLabel l = False"

definition categorizerThrows :: "issue list \<Rightarrow> bool" where
  "categorizerThrows xs =
     list_ex (\<lambda>i. \<not> pull_request i \<and> list_ex throwingLabel (labelsOf i)) xs"

text \<open>The label tests of the five label-derived buckets, on one issue.\<close>

definition bugLabelled :: "issue \<Rightarrow> bool" where
  "bugLabelled i =
     list_ex (\<lambda>l. includesJS l ''bug'' \<or> includesJS l ''error'' \<or> includesJS l ''fix'')
       (map lowerName (labelsOf i))"

definition enhancementLabelled :: "issue \<Rightarrow> bool" where
  "enhancementLabelled i =
     list_ex (\<lambda>l. includesJS l ''enhancement'' \<or> includesJS l ''feature'' \<or> includesJS l ''improvement'')
       (map lowerName (labelsOf i))"

definition documentationLabelled :: "issue \<Rightarrow> bool" where
  "documentationLabelled i =
     list_ex (\<lambda>l. includesJS l ''documentation'' \<or> includesJS l ''docs'')
       (map lowerName (labelsOf i))"

definition helpWantedLabelled :: "issue \<Rightarrow> bool" where
  "helpWantedLabelled i =
     list_ex (\<lambda>l. includesJS l ''help wanted'' \<or> includesJS l ''help-wanted'')
       (map lowerName (labelsOf i))"

definition goodFirstLabelled :: "issue \<Rightarrow> bool" where
  "goodFirstLabelled i =
     list_ex (\<lambda>l. includesJS l ''good first issue'' \<or> includesJS l ''beginner'')
       (map lowerName (labelsOf i))"

definition isIssue :: "issue \<Rightarrow> bool" where
  "isIssue i = (\<not> pull_request i)"

text \<open>What one issue adds to the buckets when the callback returns.\<close>

definition pushIssue :: "categories \<Rightarrow> issue \<Rightarrow> categories" where
  "pushIssue c i =
     (if pull_request i then c
      else pushByLabels
             (if state i = ''open''
              then c\<lparr>open_issues := open_issues c @ [i]\<rparr>
              else c\<lparr>closed := closed c @ [i]\<rparr>)
             i (map lowerName (labelsOf i)))"

text \<open>
  Case-insensitive containment, in the words of the specification: some contiguous block of
  the text equals the keyword up to letter case.
\<close>

definition containsIgnoreCase :: "string \<Rightarrow> string \<Rightarrow> bool" where
  "containsIgnoreCase s k = (\<exists>w. sublist w s \<and> toLowerCase w = toLowerCase k)"

definition labelMatches :: "issue \<Rightarrow> string list \<Rightarrow> bool" where
  "labelMatches i kws =
     (\<exists>l \<in> set (labelsOf i). \<exists>k \<in> set kws. containsIgnoreCase (labelName l) k)"


text \<open>The heading line of a subsection with its count, and the blank line after it.\<close>

definition subsectionHeading :: "string \<Rightarrow> string \<Rightarrow> nat \<Rightarrow> string" where
  "subsectionHeading icon name n =
     ''### '' @ icon @ '' '' @ name @ '' ('' @ showNat n @ '')'' @ nl @ nl"

text \<open>The pointer line of the open-issues subsection, without its line breaks.\<close>

definition morePointer :: "repoInfo \<Rightarrow> nat \<Rightarrow> string" where
  "morePointer r m =
     ''... and '' @ showNat m
     @ '' more open issues. [View all open issues](https://github.com/''
     @ owner r @ ''/'' @ repo r @ ''/issues?q=is%3Aissue+is%3Aopen)''"

text \<open>The parts of an issue line: the state icon, the link, and what follows the icon.\<close>

definition stateIcon :: "issue \<Rightarrow> string" where
  "stateIcon i = (if state i = ''open'' then iconOpen else iconClosed)"

definition bugIcon :: string where
  "bugIcon = [CHR 0xF0, CHR 0x9F, CHR 0x90, CHR 0x9B]"

definition issueLink :: "issue \<Rightarrow> string" where
  "issueLink i = ''- [#'' @ showNat (number i) @ '']('' @ html_url i @ '')''"

definition issueText :: "issue \<Rightarrow> string" where
  "issueText i =
     '' **'' @ title i @ ''**''
     @ (if labelsOf i = [] then []
        else '' `'' @ joinJS ''`, `'' (map labelShown (labelsOf i)) @ ''`'')
     @ (case assignee i of Some u \<Rightarrow> '' - Assigned to @'' @ login u | None \<Rightarrow> [])"

text \<open>The date of the header: the ISO text up to its first \<^verbatim>\<open>T\<close>.\<close>

definition dateOnly :: "string \<Rightarrow> string" where
  "dateOnly s = takeWhile (\<lambda>ch. ch \<noteq> CHR ''T'') s"

text \<open>A timestamp in the last 30 days before the clock reading \<open>now\<close>.\<close>

definition thirtyDaysMs :: int where
  "thirtyDaysMs = 30 * 86400000"


text \<open>
  \<open>minus30Days\<close> in a time zone whose offset from UTC does not change, as UTC itself: 30
  days of 24 hours earlier.
\<close>

definition fixedOffsetMinus30Days :: "int \<Rightarrow> int" where
  "fixedOffsetMinus30Days now = now - thirtyDaysMs"

text \<open>
  Two fragments differ only in the date \<open>d\<close> and the generation timestamp \<open>t\<close>: they have
  the same text before, between and after the two fields.
\<close>

definition differOnlyInStamps ::
  "string \<Rightarrow> string \<Rightarrow> string \<Rightarrow> string \<Rightarrow> string \<Rightarrow> string \<Rightarrow> bool" where
  "differOnlyInStamps d1 t1 out1 d2 t2 out2 =
     (\<exists>A B C. out1 = A @ d1 @ B @ t1 @ C \<and> out2 = A @ d2 @ B @ t2 @ C)"

text \<open>The fragment up to the date, and between the date and the generation timestamp.\<close>

definition headerUpToDate :: "repoInfo \<Rightarrow> string" where
  "headerUpToDate r =
     markerText @ nl @ nl
     @ ''> **Repository:** ['' @ owner r @ ''/'' @ repo r @ ''](https://github.com/''
     @ owner r @ ''/'' @ repo r @ '')  '' @ nl
     @ ''> **Last Updated:** ''"

definition bodyBetweenStamps :: "categories \<Rightarrow> repoInfo \<Rightarrow> issue list \<Rightarrow> string" where
  "bodyBetweenStamps c r rc =
     ''  '' @ nl
     @ ''> **Total Issues:** '' @ showNat (length (open_issues c) + length (closed c))
     @ '' ('' @ showNat (length (open_issues c)) @ '' open, ''
     @ showNat (length (closed c)) @ '' closed)'' @ nl @ nl
     @ addOpenIssues c r [] @ addBugReports c [] @ addEnhancements c []
     @ addHelpWanted c [] @ addGoodFirstIssues c [] @ addRecentlyClosed rc []
     @ statisticsTable c"

text \<open>The items of the page that the source returns for page number \<open>j\<close>.\<close>

definition pageItems :: "(nat \<Rightarrow> nat \<Rightarrow> 'a response) \<Rightarrow> nat \<Rightarrow> 'a list" where
  "pageItems src j = (case src j perPage of Page xs \<Rightarrow> xs | _ \<Rightarrow> [])"

text \<open>
  The update in the words of the specification: the output is the document with one region
  taken out, which is empty or starts with the marker, then trailing white space trimmed and
  the fragment appended after a blank line. Everything outside the region stays as it is.
\<close>

definition markerScopedUpdate :: "string \<Rightarrow> string \<Rightarrow> string \<Rightarrow> bool" where
  "markerScopedUpdate doc frag out =
     (\<exists>pre region post.
        doc = pre @ region @ post \<and> (region = [] \<or> prefix markerText region)
        \<and> out = trimEnd (pre @ post) @ nl @ nl @ frag)"

section \<open>Example inputs\<close>

definition exOpen :: issue where
  "exOpen = \<lparr>number = 42, title = ''Crash on startup'', state = ''open'',
     labels = Some [LabelString ''bug''], assignee = None, closed_at = ClosedNull,
     html_url = ''https://github.com/o/r/issues/42'', pull_request = False\<rparr>"

definition exClosed :: issue where
  "exClosed = \<lparr>number = 7, title = ''Typo in docs'', state = ''closed'',
     labels = Some [LabelObject (NameString ''Documentation''), LabelOther],
     assignee = Some \<lparr>login = ''ann''\<rparr>, closed_at = ClosedAt 1760918400000,
     html_url = ''https://github.com/o/r/issues/7'', pull_request = False\<rparr>"

definition exOld :: issue where
  "exOld = \<lparr>number = 3, title = ''Old feature request'', state = ''closed'',
     labels = Some [LabelString ''Feature''], assignee = None,
     closed_at = ClosedAt 1756684800000,
     html_url = ''https://github.com/o/r/issues/3'', pull_request = False\<rparr>"

definition exPull :: issue where
  "exPull = \<lparr>number = 8, title = ''Fix crash'', state = ''open'',
     labels = None, assignee = None, closed_at = ClosedNull,
     html_url = ''https://github.com/o/r/pull/8'', pull_request = True\<rparr>"



text \<open>2025-11-03T10:00:00Z and 2026-01-02T10:00:00Z; the closed examples were closed on
  2025-10-20 and on 2025-09-01.\<close>

definition exNow :: int where
  "exNow = 1762164000000"

definition exLater :: int where
  "exLater = 1767348000000"




definition exIssues :: "issue list" where
  "exIssues = [exOpen, exPull, exClosed, exOld]"

definition exCategories :: categories where
  "exCategories =
     \<lparr>open_issues = [exOpen], closed = [exClosed, exOld], bugs = [exOpen],
      enhancements = [exOld], documentation = [exClosed], help_wanted = [],
      good_first_issue = []\<rparr>"

definition exOnlyOpen :: categories where
  "exOnlyOpen =
     \<lparr>open_issues = [exOpen], closed = [], bugs = [exOpen], enhancements = [],
      documentation = [], help_wanted = [], good_first_issue = []\<rparr>"

definition exRepo :: repoInfo where
  "exRepo = \<lparr>owner = ''o'', repo = ''r''\<rparr>"

definition manyOpen :: "nat \<Rightarrow> categories" where
  "manyOpen n = emptyCategories\<lparr>open_issues := map (\<lambda>k. exOpen\<lparr>number := k\<rparr>) [1..<Suc n]\<rparr>"

text \<open>\<^verbatim>\<open>toISOString\<close> at the instants of the examples.\<close>

definition exISO :: "int \<Rightarrow> string" where
  "exISO t =
     (if t = exNow then ''2025-11-03T10:00:00.000Z''
      else if t = exNow + 60000 then ''2025-11-03T10:01:00.000Z''
      else ''2026-01-02T10:00:00.000Z'')"

definition exSource :: "nat \<Rightarrow> nat \<Rightarrow> nat response" where
  "exSource page n =
     (if page = 1 then Page (replicate n 7) else if page = 2 then Page [8, 9] else Page [])"

definition exLeadingBlank :: string where
  "exLeadingBlank = nl @ ''# Title'' @ nl"

text \<open>A document that starts with a byte order mark and ends with a no-break space.\<close>

definition exByteOrderMark :: string where
  "exByteOrderMark =
     [CHR 0xEF, CHR 0xBB, CHR 0xBF] @ ''# Title'' @ nl @ [CHR 0xC2, CHR 0xA0]"

definition exReadme :: string where
  "exReadme =
     ''  # Title'' @ nl @ nl @ markerText @ nl @ nl @ ''> old header'' @ nl @ nl
     @ ''## License'' @ nl @ ''MIT'' @ nl"

definition exStale :: string where
  "exStale =
     ''# Title'' @ nl @ nl @ markerText @ nl @ nl @ ''> old header'' @ nl @ nl
     @ ''### Old statistics'' @ nl"

section \<open>Properties of the categorizer\<close>

lemma js_error_TypeError: "(e :: js_error) = TypeError"
  by (cases e) simp

lemma labelLower_eq:
  "labelLower l = (if throwingLabel l then Inl TypeError else Inr (lowerName l))"
  by (cases l rule: labelName.cases) (simp_all add: lowerName_def)

lemma mapLabels_eq:
  "mapLabels ls = (if list_ex throwingLabel ls then Inl TypeError else Inr (map lowerName ls))"
  by (induction ls) (simp_all add: labelLower_eq)

lemma categorizeOne_eq:
  "categorizeOne c i =
     (if \<not> pull_request i \<and> list_ex throwingLabel (labelsOf i) then Inl TypeError
      else Inr (pushIssue c i))"
  by (simp add: categorizeOne_def pushIssue_def lowerLabels_def labelsOf_def mapLabels_eq Let_def)

lemma categorizeFrom_eq:
  "categorizeFrom c xs =
     (if categorizerThrows xs then Inl TypeError else Inr (foldl pushIssue c xs))"
  by (induction xs arbitrary: c) (simp_all add: categorizeOne_eq categorizerThrows_def)

lemma categorizeIssues_eq:
  "categorizeIssues xs =
     (if categorizerThrows xs then Inl TypeError else Inr (foldl pushIssue emptyCategories xs))"
  by (simp add: categorizeIssues_def categorizeFrom_eq)

lemma categorizeIssues_returns:
  "\<not> categorizerThrows xs \<Longrightarrow> \<exists>c. categorizeIssues xs = Inr c"
  by (simp add: categorizeIssues_eq)

lemma pushIssue_fields:
  "open_issues (pushIssue c i) =
     open_issues c @ filter (\<lambda>i. isIssue i \<and> state i = ''open'') [i]"
  "closed (pushIssue c i) =
     closed c @ filter (\<lambda>i. isIssue i \<and> state i \<noteq> ''open'') [i]"
  "bugs (pushIssue c i) = bugs c @ filter (\<lambda>i. isIssue i \<and> bugLabelled i) [i]"
  "enhancements (pushIssue c i) =
     enhancements c @ filter (\<lambda>i. isIssue i \<and> enhancementLabelled i) [i]"
  "documentation (pushIssue c i) =
     documentation c @ filter (\<lambda>i. isIssue i \<and> documentationLabelled i) [i]"
  "help_wanted (pushIssue c i) =
     help_wanted c @ filter (\<lambda>i. isIssue i \<and> helpWantedLabelled i) [i]"
  "good_first_issue (pushIssue c i) =
     good_first_issue c @ filter (\<lambda>i. isIssue i \<and> goodFirstLabelled i) [i]"
  by (simp_all add: pushIssue_def pushByLabels_def Let_def isIssue_def bugLabelled_def
      enhancementLabelled_def documentationLabelled_def helpWantedLabelled_def
      goodFirstLabelled_def)

lemma foldl_pushIssue:
  "open_issues (foldl pushIssue c xs) =
     open_issues c @ filter (\<lambda>i. isIssue i \<and> state i = ''open'') xs"
  "closed (foldl pushIssue c xs) =
     closed c @ filter (\<lambda>i. isIssue i \<and> state i \<noteq> ''open'') xs"
  "bugs (foldl pushIssue c xs) = bugs c @ filter (\<lambda>i. isIssue i \<and> bugLabelled i) xs"
  "enhancements (foldl pushIssue c xs) =
     enhancements c @ filter (\<lambda>i. isIssue i \<and> enhancementLabelled i) xs"
  "documentation (foldl pushIssue c xs) =
     documentation c @ filter (\<lambda>i. isIssue i \<and> documentationLabelled i) xs"
  "help_wanted (foldl pushIssue c xs) =
     help_wanted c @ filter (\<lambda>i. isIssue i \<and> helpWantedLabelled i) xs"
  "good_first_issue (foldl pushIssue c xs) =
     good_first_issue c @ filter (\<lambda>i. isIssue i \<and> goodFirstLabelled i) xs"
  by (induction xs arbitrary: c; simp add: pushIssue_fields)+

lemma categorizeIssues_buckets:
  assumes "categorizeIssues xs = Inr c"
  shows "open_issues c = filter (\<lambda>i. isIssue i \<and> state i = ''open'') xs"
    "closed c = filter (\<lambda>i. isIssue i \<and> state i \<noteq> ''open'') xs"
    "bugs c = filter (\<lambda>i. isIssue i \<and> bugLabelled i) xs"
    "enhancements c = filter (\<lambda>i. isIssue i \<and> enhancementLabelled i) xs"
    "documentation c = filter (\<lambda>i. isIssue i \<and> documentationLabelled i) xs"
    "help_wanted c = filter (\<lambda>i. isIssue i \<and> helpWantedLabelled i) xs"
    "good_first_issue c = filter (\<lambda>i. isIssue i \<and> goodFirstLabelled i) xs"
proof -
  from assms have "c = foldl pushIssue emptyCategories xs"
    by (simp add: categorizeIssues_eq split: if_splits)
  then show "open_issues c = filter (\<lambda>i. isIssue i \<and> state i = ''open'') xs"
    "closed c = filter (\<lambda>i. isIssue i \<and> state i \<noteq> ''open'') xs"
    "bugs c = filter (\<lambda>i. isIssue i \<and> bugLabelled i) xs"
    "enhancements c = filter (\<lambda>i. isIssue i \<and> enhancementLabelled i) xs"
    "documentation c = filter (\<lambda>i. isIssue i \<and> documentationLabelled i) xs"
    "help_wanted c = filter (\<lambda>i. isIssue i \<and> helpWantedLabelled i) xs"
    "good_first_issue c = filter (\<lambda>i. isIssue i \<and> goodFirstLabelled i) xs"
    by (simp_all add: foldl_pushIssue emptyCategories_def)
qed

lemma ex_not_throws: "\<not> categorizerThrows exIssues"
  by (simp add: categorizerThrows_def exIssues_def labelsOf_def exOpen_def exPull_def
      exClosed_def exOld_def)

lemma ex_categorize: "categorizeIssues exIssues = Inr exCategories"
  by code_simp

lemma ex_categorize_single: "categorizeIssues [exOpen] = Inr exOnlyOpen"
  by code_simp

text \<open>
  C3: the categorizer returns buckets for every input on which line 132 does not throw.
  The open and the closed bucket it returns together hold, as multisets, exactly the entries
  of the input that carry no pull-request marker; the two buckets have no common element;
  an entry without the marker goes to the open bucket when its state field is \<^verbatim>\<open>'open'\<close> and
  to the closed bucket otherwise, and nothing else decides.
\<close>

theorem categorizeIssues_state_partition:
  "(\<not> categorizerThrows xs \<longrightarrow> (\<exists>c. categorizeIssues xs = Inr c))
   \<and> (categorizeIssues xs = Inr c \<longrightarrow>
        mset (open_issues c) + mset (closed c) = mset (filter (\<lambda>i. \<not> pull_request i) xs)
        \<and> set (open_issues c) \<inter> set (closed c) = {}
        \<and> open_issues c = filter (\<lambda>i. \<not> pull_request i \<and> state i = ''open'') xs
        \<and> closed c = filter (\<lambda>i. \<not> pull_request i \<and> state i \<noteq> ''open'') xs)"
proof (intro conjI impI)
  assume "\<not> categorizerThrows xs"
  then show "\<exists>c. categorizeIssues xs = Inr c" by (rule categorizeIssues_returns)
next
  assume r: "categorizeIssues xs = Inr c"
  have m: "mset (filter (\<lambda>i. isIssue i \<and> state i = ''open'') xs)
        + mset (filter (\<lambda>i. isIssue i \<and> state i \<noteq> ''open'') xs)
        = mset (filter (\<lambda>i. \<not> pull_request i) xs)"
    by (induction xs) (auto simp: isIssue_def)
  have d: "set (filter (\<lambda>i. isIssue i \<and> state i = ''open'') xs)
        \<inter> set (filter (\<lambda>i. isIssue i \<and> state i \<noteq> ''open'') xs) = {}"
    by auto
  show "mset (open_issues c) + mset (closed c) = mset (filter (\<lambda>i. \<not> pull_request i) xs)"
    using m by (simp add: categorizeIssues_buckets [OF r])
  show "set (open_issues c) \<inter> set (closed c) = {}"
    using d by (simp add: categorizeIssues_buckets [OF r])
  show "open_issues c = filter (\<lambda>i. \<not> pull_request i \<and> state i = ''open'') xs"
    by (simp add: categorizeIssues_buckets [OF r] isIssue_def)
  show "closed c = filter (\<lambda>i. \<not> pull_request i \<and> state i \<noteq> ''open'') xs"
    by (simp add: categorizeIssues_buckets [OF r] isIssue_def)
qed

theorem categorizeIssues_state_partition_witness:
  "(\<exists>c. categorizeIssues exIssues = Inr c)
   \<and> open_issues exCategories = filter (\<lambda>i. \<not> pull_request i \<and> state i = ''open'') exIssues
   \<and> closed exCategories = filter (\<lambda>i. \<not> pull_request i \<and> state i \<noteq> ''open'') exIssues
   \<and> set (open_issues exCategories) \<inter> set (closed exCategories) = {}"
  using categorizeIssues_state_partition [of exIssues exCategories] ex_not_throws ex_categorize
  by blast

text \<open>
  C9: the categorizer returns buckets for every input on which line 132 does not throw,
  and each of the seven buckets it returns is a subsequence of the input list: entries
  keep their relative order, and none is repeated or invented.
\<close>

theorem categorizeIssues_subseq:
  "(\<not> categorizerThrows xs \<longrightarrow> (\<exists>c. categorizeIssues xs = Inr c))
   \<and> (categorizeIssues xs = Inr c \<longrightarrow>
        subseq (open_issues c) xs
        \<and> subseq (closed c) xs
        \<and> subseq (bugs c) xs
        \<and> subseq (enhancements c) xs
        \<and> subseq (documentation c) xs
        \<and> subseq (help_wanted c) xs
        \<and> subseq (good_first_issue c) xs)"
  by (auto simp: categorizeIssues_buckets categorizeIssues_returns)

theorem categorizeIssues_subseq_witness:
  "subseq [exOpen] exIssues \<and> subseq [exClosed, exOld] exIssues \<and> subseq [] exIssues"
  using categorizeIssues_subseq [of exIssues exCategories] ex_categorize
  by (simp add: exCategories_def)

subsection \<open>Label-derived buckets\<close>

lemma sublist_map_iff:
  "sublist k (map f s) \<longleftrightarrow> (\<exists>w. sublist w s \<and> map f w = k)"
proof
  assume "sublist k (map f s)"
  then obtain ps ss where "map f s = ps @ k @ ss" by (auto simp: sublist_def)
  then obtain us vs where s: "s = us @ vs" and vs: "map f vs = k @ ss"
    by (metis map_eq_append_conv)
  from vs obtain w ts where "vs = w @ ts" "map f w = k"
    by (metis map_eq_append_conv)
  with s show "\<exists>w. sublist w s \<and> map f w = k" by (auto simp: sublist_def)
next
  assume "\<exists>w. sublist w s \<and> map f w = k"
  then obtain w ps ss where "s = ps @ w @ ss" "map f w = k" by (auto simp: sublist_def)
  then have "map f s = map f ps @ k @ map f ss" by simp
  then show "sublist k (map f s)" unfolding sublist_def by blast
qed

lemma includes_lower_iff:
  "toLowerCase k = k \<Longrightarrow> includesJS (lowerName l) k \<longleftrightarrow> containsIgnoreCase (labelName l) k"
  by (simp add: includesJS_def containsIgnoreCase_def lowerName_def toLowerCase_def
      sublist_map_iff)

lemma keywords_lower:
  "toLowerCase ''bug'' = ''bug''" "toLowerCase ''error'' = ''error''"
  "toLowerCase ''fix'' = ''fix''" "toLowerCase ''enhancement'' = ''enhancement''"
  "toLowerCase ''feature'' = ''feature''" "toLowerCase ''improvement'' = ''improvement''"
  "toLowerCase ''documentation'' = ''documentation''" "toLowerCase ''docs'' = ''docs''"
  "toLowerCase ''help wanted'' = ''help wanted''" "toLowerCase ''help-wanted'' = ''help-wanted''"
  "toLowerCase ''good first issue'' = ''good first issue''"
  "toLowerCase ''beginner'' = ''beginner''"
  by (simp_all add: toLowerCase_def lowerChar_def)

lemma labelled_iff:
  "bugLabelled i \<longleftrightarrow> labelMatches i [''bug'', ''error'', ''fix'']"
  "enhancementLabelled i \<longleftrightarrow> labelMatches i [''enhancement'', ''feature'', ''improvement'']"
  "documentationLabelled i \<longleftrightarrow> labelMatches i [''documentation'', ''docs'']"
  "helpWantedLabelled i \<longleftrightarrow> labelMatches i [''help wanted'', ''help-wanted'']"
  "goodFirstLabelled i \<longleftrightarrow> labelMatches i [''good first issue'', ''beginner'']"
  by (simp_all add: bugLabelled_def enhancementLabelled_def documentationLabelled_def
      helpWantedLabelled_def goodFirstLabelled_def labelMatches_def
      list_ex_iff includes_lower_iff keywords_lower del: toLowerCase_def)

text \<open>
  C4: the categorizer returns buckets for every input on which line 132 does not throw. An
  entry is in a label-derived bucket it returns exactly when it is in the input, carries no
  pull-request marker, and one of its label names (the bare string, or the name field of
  the object) contains one of the bucket's keywords up to letter case: bug, error, fix;
  enhancement, feature, improvement; documentation, docs; help wanted, help-wanted; good
  first issue, beginner. An entry without labels is in none of the five.
\<close>

theorem label_buckets_by_keyword:
  "(\<not> categorizerThrows xs \<longrightarrow> (\<exists>c. categorizeIssues xs = Inr c))
   \<and> (categorizeIssues xs = Inr c \<longrightarrow>
      (i \<in> set (bugs c) \<longleftrightarrow>
         i \<in> set xs \<and> \<not> pull_request i \<and> labelMatches i [''bug'', ''error'', ''fix''])
      \<and> (i \<in> set (enhancements c) \<longleftrightarrow>
         i \<in> set xs \<and> \<not> pull_request i
         \<and> labelMatches i [''enhancement'', ''feature'', ''improvement''])
      \<and> (i \<in> set (documentation c) \<longleftrightarrow>
         i \<in> set xs \<and> \<not> pull_request i \<and> labelMatches i [''documentation'', ''docs''])
      \<and> (i \<in> set (help_wanted c) \<longleftrightarrow>
         i \<in> set xs \<and> \<not> pull_request i \<and> labelMatches i [''help wanted'', ''help-wanted''])
      \<and> (i \<in> set (good_first_issue c) \<longleftrightarrow>
         i \<in> set xs \<and> \<not> pull_request i
         \<and> labelMatches i [''good first issue'', ''beginner''])
      \<and> (labelsOf i = [] \<longrightarrow>
           i \<notin> set (bugs c) \<and> i \<notin> set (enhancements c) \<and> i \<notin> set (documentation c)
           \<and> i \<notin> set (help_wanted c) \<and> i \<notin> set (good_first_issue c)))"
proof (intro conjI impI)
  assume "\<not> categorizerThrows xs"
  then show "\<exists>c. categorizeIssues xs = Inr c" by (rule categorizeIssues_returns)
next
  assume r: "categorizeIssues xs = Inr c"
  note b = categorizeIssues_buckets [OF r]
  show "i \<in> set (bugs c) \<longleftrightarrow>
         i \<in> set xs \<and> \<not> pull_request i \<and> labelMatches i [''bug'', ''error'', ''fix'']"
    by (auto simp: b labelled_iff isIssue_def)
  show "i \<in> set (enhancements c) \<longleftrightarrow>
         i \<in> set xs \<and> \<not> pull_request i
         \<and> labelMatches i [''enhancement'', ''feature'', ''improvement'']"
    by (auto simp: b labelled_iff isIssue_def)
  show "i \<in> set (documentation c) \<longleftrightarrow>
         i \<in> set xs \<and> \<not> pull_request i \<and> labelMatches i [''documentation'', ''docs'']"
    by (auto simp: b labelled_iff isIssue_def)
  show "i \<in> set (help_wanted c) \<longleftrightarrow>
         i \<in> set xs \<and> \<not> pull_request i \<and> labelMatches i [''help wanted'', ''help-wanted'']"
    by (auto simp: b labelled_iff isIssue_def)
  show "i \<in> set (good_first_issue c) \<longleftrightarrow>
         i \<in> set xs \<and> \<not> pull_request i
         \<and> labelMatches i [''good first issue'', ''beginner'']"
    by (auto simp: b labelled_iff isIssue_def)
  have none: "\<not> labelMatches i kws" if "labelsOf i = []" for kws
    using that by (simp add: labelMatches_def)
  show "i \<notin> set (bugs c)" "i \<notin> set (enhancements c)" "i \<notin> set (documentation c)"
    "i \<notin> set (help_wanted c)" "i \<notin> set (good_first_issue c)" if "labelsOf i = []"
    using none [OF that] by (auto simp: b labelled_iff)
qed

theorem label_buckets_by_keyword_witness:
  "labelMatches exOpen [''bug'', ''error'', ''fix'']
   \<and> \<not> labelMatches exClosed [''bug'', ''error'', ''fix'']
   \<and> labelMatches exClosed [''documentation'', ''docs'']
   \<and> exPull \<notin> set (bugs exCategories)"
  using label_buckets_by_keyword [of exIssues exCategories exOpen]
    label_buckets_by_keyword [of exIssues exCategories exClosed]
    label_buckets_by_keyword [of exIssues exCategories exPull]
    ex_categorize
  by (simp add: exCategories_def exIssues_def) (simp add: exOpen_def exClosed_def exPull_def exOld_def)

subsection \<open>Malformed label entries\<close>












section \<open>Properties of the renderer\<close>

lemma foldl_lines:
  "foldl (\<lambda>s i. s @ f i @ nl) s xs = s @ concat (map (\<lambda>i. f i @ nl) xs)"
  by (induction xs arbitrary: s) simp_all

lemma addOpenIssues_eq:
  "addOpenIssues c r s =
     s @ (if open_issues c = [] then []
          else subsectionHeading iconOpen ''Open Issues'' (length (open_issues c))
               @ concat (map (\<lambda>i. formatIssueForReadme i False @ nl) (take 20 (open_issues c)))
               @ (if 20 < length (open_issues c)
                  then nl @ morePointer r (length (open_issues c) - 20) @ nl else [])
               @ nl)"
  by (simp add: addOpenIssues_def Let_def foldl_lines subsectionHeading_def morePointer_def)

lemma addBugReports_eq:
  "addBugReports c s =
     s @ (if bugs c = [] then []
          else subsectionHeading [CHR 0xF0, CHR 0x9F, CHR 0x90, CHR 0x9B] ''Bug Reports''
                 (length (bugs c))
               @ concat (map (\<lambda>i. formatIssueForReadme i True @ nl) (take 10 (bugs c))) @ nl)"
  by (simp add: addBugReports_def Let_def foldl_lines subsectionHeading_def)

lemma addEnhancements_eq:
  "addEnhancements c s =
     s @ (if enhancements c = [] then []
          else subsectionHeading [CHR 0xE2, CHR 0x9C, CHR 0xA8]
                 ''Feature Requests & Enhancements'' (length (enhancements c))
               @ concat (map (\<lambda>i. formatIssueForReadme i True @ nl) (take 10 (enhancements c)))
               @ nl)"
  by (simp add: addEnhancements_def Let_def foldl_lines subsectionHeading_def)

lemma addHelpWanted_eq:
  "addHelpWanted c s =
     s @ (if help_wanted c = [] then []
          else subsectionHeading [CHR 0xF0, CHR 0x9F, CHR 0x86, CHR 0x98] ''Help Wanted''
                 (length (help_wanted c))
               @ concat (map (\<lambda>i. formatIssueForReadme i True @ nl) (take 5 (help_wanted c)))
               @ nl)"
  by (simp add: addHelpWanted_def Let_def foldl_lines subsectionHeading_def)

lemma addGoodFirstIssues_eq:
  "addGoodFirstIssues c s =
     s @ (if good_first_issue c = [] then []
          else subsectionHeading [CHR 0xF0, CHR 0x9F, CHR 0x8C, CHR 0x9F] ''Good First Issues''
                 (length (good_first_issue c))
               @ concat (map (\<lambda>i. formatIssueForReadme i True @ nl) (good_first_issue c))
               @ nl)"
  by (simp add: addGoodFirstIssues_def Let_def foldl_lines subsectionHeading_def)

lemma addRecentlyClosed_eq:
  "addRecentlyClosed rc s =
     s @ (if rc = [] then []
          else subsectionHeading [CHR 0xE2, CHR 0x9C, CHR 0x85] ''Recently Closed Issues''
                 (length rc)
               @ concat (map (\<lambda>i. formatIssueForReadme i True @ nl) rc) @ nl)"
  by (simp add: addRecentlyClosed_def Let_def foldl_lines subsectionHeading_def)

text \<open>
  C5: the open-issues subsection is omitted for an empty bucket; with at most 20 entries it
  lists all of them in the order of the bucket and has no pointer line; with more than 20
  it lists the first 20 in that order, followed by one pointer line \<^verbatim>\<open>... and (n - 20) more open
  issues.\<close> with the link to the search for open issues. The number of entries listed is
  \<open>min 20 n\<close>.
\<close>

theorem open_issues_truncation:
  "(length (open_issues c) = 0 \<longrightarrow> addOpenIssues c r s = s)
   \<and> (0 < length (open_issues c) \<and> length (open_issues c) \<le> 20 \<longrightarrow>
        addOpenIssues c r s =
          s @ subsectionHeading iconOpen ''Open Issues'' (length (open_issues c))
            @ concat (map (\<lambda>i. formatIssueForReadme i False @ nl) (open_issues c)) @ nl)
   \<and> (20 < length (open_issues c) \<longrightarrow>
        addOpenIssues c r s =
          s @ subsectionHeading iconOpen ''Open Issues'' (length (open_issues c))
            @ concat (map (\<lambda>i. formatIssueForReadme i False @ nl) (take 20 (open_issues c)))
            @ nl @ ''... and '' @ showNat (length (open_issues c) - 20)
            @ '' more open issues. [View all open issues](https://github.com/''
            @ owner r @ ''/'' @ repo r @ ''/issues?q=is%3Aissue+is%3Aopen)'' @ nl @ nl)
   \<and> length (take 20 (open_issues c)) = min 20 (length (open_issues c))"
  by (auto simp: addOpenIssues_eq morePointer_def)

theorem open_issues_truncation_witness:
  "addOpenIssues (manyOpen 25) exRepo [] =
     subsectionHeading iconOpen ''Open Issues'' 25
     @ concat (map (\<lambda>i. formatIssueForReadme i False @ nl) (take 20 (open_issues (manyOpen 25))))
     @ nl @ ''... and 5 more open issues. [View all open issues](https://github.com/o/r/issues?q=is%3Aissue+is%3Aopen)''
     @ nl @ nl
   \<and> addOpenIssues (manyOpen 3) exRepo [] =
     subsectionHeading iconOpen ''Open Issues'' 3
     @ concat (map (\<lambda>i. formatIssueForReadme i False @ nl) (open_issues (manyOpen 3))) @ nl
   \<and> addOpenIssues (manyOpen 0) exRepo [] = []"
proof -
  have len: "length (open_issues (manyOpen n)) = n" for n
    by (simp add: manyOpen_def)
  have five: "showNat 5 = ''5''" by code_simp
  show ?thesis
    using open_issues_truncation [of "manyOpen 25" exRepo "[]"]
      open_issues_truncation [of "manyOpen 3" exRepo "[]"]
      open_issues_truncation [of "manyOpen 0" exRepo "[]"]
    by (simp add: len five exRepo_def)
qed

text \<open>
  C2, as amended: the lines of the open-issues subsection are rendered without the state
  icon, the lines of every other subsection (bug reports, enhancements, help wanted, good
  first issues, recently closed) with it, whatever states the subsection holds. The line
  with the icon is the line without it, with a space and the icon put after the link. The
  open, unassigned issue 42 \<^verbatim>\<open>Crash on startup\<close> labelled \<^verbatim>\<open>bug\<close> is rendered without the icon
  in the open-issues subsection and with the open icon in the bug-reports subsection.
\<close>

theorem state_icon_by_subsection:
  "addOpenIssues c r s =
     s @ (if open_issues c = [] then []
          else subsectionHeading iconOpen ''Open Issues'' (length (open_issues c))
               @ concat (map (\<lambda>i. formatIssueForReadme i False @ nl) (take 20 (open_issues c)))
               @ (if 20 < length (open_issues c)
                  then nl @ morePointer r (length (open_issues c) - 20) @ nl else [])
               @ nl)
   \<and> addBugReports c s =
     s @ (if bugs c = [] then []
          else subsectionHeading bugIcon ''Bug Reports'' (length (bugs c))
               @ concat (map (\<lambda>i. formatIssueForReadme i True @ nl) (take 10 (bugs c))) @ nl)
   \<and> addEnhancements c s =
     s @ (if enhancements c = [] then []
          else subsectionHeading [CHR 0xE2, CHR 0x9C, CHR 0xA8]
                 ''Feature Requests & Enhancements'' (length (enhancements c))
               @ concat (map (\<lambda>i. formatIssueForReadme i True @ nl) (take 10 (enhancements c)))
               @ nl)
   \<and> addHelpWanted c s =
     s @ (if help_wanted c = [] then []
          else subsectionHeading [CHR 0xF0, CHR 0x9F, CHR 0x86, CHR 0x98] ''Help Wanted''
                 (length (help_wanted c))
               @ concat (map (\<lambda>i. formatIssueForReadme i True @ nl) (take 5 (help_wanted c)))
               @ nl)
   \<and> addGoodFirstIssues c s =
     s @ (if good_first_issue c = [] then []
          else subsectionHeading [CHR 0xF0, CHR 0x9F, CHR 0x8C, CHR 0x9F] ''Good First Issues''
                 (length (good_first_issue c))
               @ concat (map (\<lambda>i. formatIssueForReadme i True @ nl) (good_first_issue c))
               @ nl)
   \<and> addRecentlyClosed rc s =
     s @ (if rc = [] then []
          else subsectionHeading [CHR 0xE2, CHR 0x9C, CHR 0x85] ''Recently Closed Issues''
                 (length rc)
               @ concat (map (\<lambda>i. formatIssueForReadme i True @ nl) rc) @ nl)
   \<and> (number i = 42 \<and> title i = ''Crash on startup'' \<and> state i = ''open''
        \<and> labels i = Some [LabelString ''bug''] \<and> assignee i = None \<longrightarrow>
        formatIssueForReadme i False
          = ''- [#42]('' @ html_url i @ '') **Crash on startup** `bug`''
        \<and> formatIssueForReadme i True
          = ''- [#42]('' @ html_url i @ '') '' @ iconOpen @ '' **Crash on startup** `bug`'')
   \<and> formatIssueForReadme i' False = issueLink i' @ issueText i'
   \<and> formatIssueForReadme i' True = issueLink i' @ '' '' @ stateIcon i' @ issueText i'"
proof -
  have n42: "showNat 42 = ''42''" by code_simp
  show ?thesis
    by (simp add: addOpenIssues_eq addBugReports_eq addEnhancements_eq addHelpWanted_eq
        addGoodFirstIssues_eq addRecentlyClosed_eq bugIcon_def)
       (simp add: formatIssueForReadme_def n42 stateIcon_def issueLink_def issueText_def Let_def labelsOf_def)
qed

theorem state_icon_by_subsection_witness:
  "formatIssueForReadme exOpen False
     = ''- [#42](https://github.com/o/r/issues/42) **Crash on startup** `bug`''
   \<and> formatIssueForReadme exOpen True
     = ''- [#42](https://github.com/o/r/issues/42) '' @ iconOpen @ '' **Crash on startup** `bug`''"
  using state_icon_by_subsection [of emptyCategories exRepo "[]" "[]" exOpen exOpen]
  by (simp add: exOpen_def)

text \<open>
  C2, as stated, fails: the bug-reports subsection of the single open issue 42 holds only
  open issues, and its line carries the state icon.
\<close>

theorem bug_reports_line_counterexample:
  "categorizeIssues [exOpen] = Inr exOnlyOpen
   \<and> bugs exOnlyOpen = [exOpen]
   \<and> addBugReports exOnlyOpen []
       = subsectionHeading bugIcon ''Bug Reports'' 1
         @ ''- [#42](https://github.com/o/r/issues/42) '' @ iconOpen
         @ '' **Crash on startup** `bug`'' @ nl @ nl
   \<and> addBugReports exOnlyOpen []
       \<noteq> subsectionHeading bugIcon ''Bug Reports'' 1
         @ ''- [#42](https://github.com/o/r/issues/42) **Crash on startup** `bug`'' @ nl @ nl"
  proof -
  have "addBugReports exOnlyOpen []
       = subsectionHeading bugIcon ''Bug Reports'' 1
         @ ''- [#42](https://github.com/o/r/issues/42) '' @ iconOpen
         @ '' **Crash on startup** `bug`'' @ nl @ nl"
    by code_simp
  moreover have "addBugReports exOnlyOpen []
       \<noteq> subsectionHeading bugIcon ''Bug Reports'' 1
         @ ''- [#42](https://github.com/o/r/issues/42) **Crash on startup** `bug`'' @ nl @ nl"
    by code_simp
  ultimately show ?thesis
    by (simp add: ex_categorize_single) (simp add: exOnlyOpen_def)
qed

lemma filterRecent_snd: "snd (filterRecent minus30Days clk k xs) = k + length xs"
  by (induction xs arbitrary: k) (simp_all add: Let_def case_prod_beta)

lemma filterRecent_frozen: "fst (filterRecent minus30Days (\<lambda>_. now) k xs) = filter (closedRecently minus30Days now) xs"
  by (induction xs arbitrary: k) (simp_all add: Let_def case_prod_beta)

lemma filterRecent_cong:
  "(\<forall>j < length xs. clk1 (k + j) = clk2 (k + j)) \<Longrightarrow> filterRecent minus30Days clk1 k xs = filterRecent minus30Days clk2 k xs"
proof (induction xs arbitrary: k)
  case Nil
  then show ?case by simp
next
  case (Cons x xs)
  have "clk1 k = clk2 k" using Cons.prems by force
  moreover have "\<forall>j < length xs. clk1 (Suc k + j) = clk2 (Suc k + j)"
    using Cons.prems by force
  ultimately show ?case using Cons.IH [of "Suc k"] by simp
qed

lemma generateIssuesSection_eq:
  "generateIssuesSection toISOString minus30Days clk c r =
     addGoodFirstIssues c (addHelpWanted c (addEnhancements c (addBugReports c
       (addOpenIssues c r (sectionHeader (dateOnly (toISOString (clk 0))) c r)))))
     @ addRecentlyClosed (take 10 (fst (filterRecent minus30Days clk 1 (closed c)))) []
     @ statisticsTable c @ toISOString (clk (Suc (length (closed c)))) @ sectionFooter"
  by (simp add: generateIssuesSection_def Let_def case_prod_beta dateOnly_def
      addRecentlyClosed_eq filterRecent_snd)

lemma add_append:
  "addOpenIssues c r s = s @ addOpenIssues c r []"
  "addBugReports c s = s @ addBugReports c []"
  "addEnhancements c s = s @ addEnhancements c []"
  "addHelpWanted c s = s @ addHelpWanted c []"
  "addGoodFirstIssues c s = s @ addGoodFirstIssues c []"
  "addRecentlyClosed rc s = s @ addRecentlyClosed rc []"
  by (simp_all add: addOpenIssues_eq addBugReports_eq addEnhancements_eq addHelpWanted_eq
      addGoodFirstIssues_eq addRecentlyClosed_eq)

lemma generateIssuesSection_stamps:
  "generateIssuesSection toISOString minus30Days clk c r =
     headerUpToDate r @ dateOnly (toISOString (clk 0))
     @ bodyBetweenStamps c r (take 10 (fst (filterRecent minus30Days clk 1 (closed c))))
     @ toISOString (clk (Suc (length (closed c)))) @ sectionFooter"
  apply (simp only: generateIssuesSection_eq)
  apply (subst add_append(5), subst add_append(4), subst add_append(3), subst add_append(2),
      subst add_append(1))
  apply (simp add: sectionHeader_def headerUpToDate_def bodyBetweenStamps_def Let_def)
  done

lemma differOnlyInStamps_length:
  "differOnlyInStamps d1 t1 out1 d2 t2 out2 \<Longrightarrow>
     length out1 + length d2 + length t2 = length out2 + length d1 + length t1"
  by (auto simp: differOnlyInStamps_def)

text \<open>
  C6, as amended: two runs on the same buckets and repository whose clocks give the same
  readings produce the same fragment. Two runs whose clocks differ, but select the same
  recently closed issues, produce fragments that are equal outside the date of the header
  and the generation timestamp of the footer.
\<close>

theorem render_clock_dependence:
  "((\<forall>j \<le> Suc (length (closed c)). clk1 j = clk2 j) \<longrightarrow>
      generateIssuesSection toISOString minus30Days clk1 c r = generateIssuesSection toISOString minus30Days clk2 c r)
   \<and> (take 10 (fst (filterRecent minus30Days clk1 1 (closed c)))
        = take 10 (fst (filterRecent minus30Days clk2 1 (closed c))) \<longrightarrow>
      differOnlyInStamps
        (dateOnly (toISOString (clk1 0))) (toISOString (clk1 (Suc (length (closed c)))))
        (generateIssuesSection toISOString minus30Days clk1 c r)
        (dateOnly (toISOString (clk2 0))) (toISOString (clk2 (Suc (length (closed c)))))
        (generateIssuesSection toISOString minus30Days clk2 c r))"
proof (intro conjI impI)
  assume eq: "\<forall>j \<le> Suc (length (closed c)). clk1 j = clk2 j"
  then have "\<forall>j < length (closed c). clk1 (1 + j) = clk2 (1 + j)" by simp
  then have "filterRecent minus30Days clk1 1 (closed c) = filterRecent minus30Days clk2 1 (closed c)"
    by (rule filterRecent_cong)
  moreover from eq have "clk1 0 = clk2 0" "clk1 (Suc (length (closed c))) = clk2 (Suc (length (closed c)))"
    by simp_all
  ultimately show "generateIssuesSection toISOString minus30Days clk1 c r
      = generateIssuesSection toISOString minus30Days clk2 c r"
    by (simp add: generateIssuesSection_stamps)
next
  assume "take 10 (fst (filterRecent minus30Days clk1 1 (closed c)))
        = take 10 (fst (filterRecent minus30Days clk2 1 (closed c)))"
  then show "differOnlyInStamps
        (dateOnly (toISOString (clk1 0))) (toISOString (clk1 (Suc (length (closed c)))))
        (generateIssuesSection toISOString minus30Days clk1 c r)
        (dateOnly (toISOString (clk2 0))) (toISOString (clk2 (Suc (length (closed c)))))
        (generateIssuesSection toISOString minus30Days clk2 c r)"
    unfolding differOnlyInStamps_def generateIssuesSection_stamps
    by (intro exI [of _ "headerUpToDate r"]
        exI [of _ "bodyBetweenStamps c r (take 10 (fst (filterRecent minus30Days clk2 1 (closed c))))"]
        exI [of _ sectionFooter]) simp
qed

lemma ex_closed: "closed exCategories = [exClosed, exOld]"
  by (simp add: exCategories_def)

lemma ex_lengths:
  "length (generateIssuesSection exISO fixedOffsetMinus30Days (\<lambda>_. exNow) exCategories exRepo) = 1040"
  "length (generateIssuesSection exISO fixedOffsetMinus30Days (\<lambda>_. exLater) exCategories exRepo) = 895"
  by code_simp+

lemma ex_stamp_lengths:
  "length (dateOnly (exISO exNow)) = 10" "length (exISO exNow) = 24"
  "length (dateOnly (exISO exLater)) = 10" "length (exISO exLater) = 24"
  by (simp_all add: dateOnly_def exISO_def exNow_def exLater_def)

text \<open>
  C6, as stated, fails: an issue closed on 2025-10-20 is recently closed for a clock frozen
  at 2025-11-03 and no longer for a clock frozen at 2026-01-02, so the two fragments differ
  by the whole recently-closed subsection, not only in the date and the timestamp.
\<close>

theorem clock_fields_counterexample:
  "\<not> differOnlyInStamps
       (dateOnly (exISO exNow)) (exISO exNow)
       (generateIssuesSection exISO fixedOffsetMinus30Days (\<lambda>_. exNow) exCategories exRepo)
       (dateOnly (exISO exLater)) (exISO exLater)
       (generateIssuesSection exISO fixedOffsetMinus30Days (\<lambda>_. exLater) exCategories exRepo)"
proof
  assume "differOnlyInStamps
       (dateOnly (exISO exNow)) (exISO exNow)
       (generateIssuesSection exISO fixedOffsetMinus30Days (\<lambda>_. exNow) exCategories exRepo)
       (dateOnly (exISO exLater)) (exISO exLater)
       (generateIssuesSection exISO fixedOffsetMinus30Days (\<lambda>_. exLater) exCategories exRepo)"
  from differOnlyInStamps_length [OF this] show False
    by (simp add: ex_lengths ex_stamp_lengths)
qed

lemma ex_recent:
  "filter (closedRecently fixedOffsetMinus30Days exNow) (closed exCategories) = [exClosed]"
  "filter (closedRecently fixedOffsetMinus30Days (exNow + 60000)) (closed exCategories)
     = [exClosed]"
  by (simp_all add: ex_closed closedRecently_def fixedOffsetMinus30Days_def thirtyDaysMs_def
      exNow_def)
     (simp_all add: exClosed_def exOld_def)

theorem render_clock_dependence_witness:
  "generateIssuesSection exISO fixedOffsetMinus30Days (\<lambda>_. exNow) exCategories exRepo
     = generateIssuesSection exISO fixedOffsetMinus30Days (\<lambda>_. exNow) exCategories exRepo
   \<and> differOnlyInStamps
        (dateOnly (exISO exNow)) (exISO exNow)
        (generateIssuesSection exISO fixedOffsetMinus30Days (\<lambda>_. exNow) exCategories exRepo)
        (dateOnly (exISO (exNow + 60000))) (exISO (exNow + 60000))
        (generateIssuesSection exISO fixedOffsetMinus30Days (\<lambda>_. exNow + 60000) exCategories exRepo)"
  using render_clock_dependence [where c = exCategories and ?clk1.0 = "\<lambda>_. exNow"
      and ?clk2.0 = "\<lambda>_. exNow + 60000" and toISOString = exISO and r = exRepo
      and minus30Days = fixedOffsetMinus30Days]
  by (simp add: filterRecent_frozen ex_recent)






section \<open>Properties of the fetcher\<close>

lemma fetchLoop_last:
  assumes "src p perPage = Page ys" and "length ys < perPage"
  shows "fetchLoop src p acc reqs = Some (Inr (acc @ ys), reqs @ [(p, perPage)])"
  using assms by (subst fetchLoop.simps) auto

lemma fetchLoop_full:
  assumes "src p perPage = Page xs" and "perPage \<le> length xs"
  shows "fetchLoop src p acc reqs = fetchLoop src (Suc p) (acc @ xs) (reqs @ [(p, perPage)])"
  using assms by (subst fetchLoop.simps) (auto simp: perPage_def)

lemma fetchLoop_pages:
  assumes "\<forall>j. page \<le> j \<and> j < p \<longrightarrow> (\<exists>xs. src j perPage = Page xs \<and> perPage \<le> length xs)"
    and "page \<le> p"
  shows "fetchLoop src page acc reqs =
           fetchLoop src p (acc @ concat (map (pageItems src) [page..<p]))
             (reqs @ map (\<lambda>j. (j, perPage)) [page..<p])"
  using assms
proof (induction "p - page" arbitrary: page acc reqs)
  case 0
  then show ?case by simp
next
  case (Suc d)
  then have lt: "page < p" by simp
  with Suc.prems obtain xs where xs: "src page perPage = Page xs" "perPage \<le> length xs"
    by auto
  have items: "pageItems src page = xs" by (simp add: pageItems_def xs)
  have "fetchLoop src page acc reqs = fetchLoop src (Suc page) (acc @ xs) (reqs @ [(page, perPage)])"
    using xs by (rule fetchLoop_full)
  also have "\<dots> = fetchLoop src p ((acc @ xs) @ concat (map (pageItems src) [Suc page..<p]))
             ((reqs @ [(page, perPage)]) @ map (\<lambda>j. (j, perPage)) [Suc page..<p])"
    using Suc.hyps(2) Suc.prems lt by (intro Suc.hyps(1)) auto
  finally show ?case using lt by (simp add: upt_conv_Cons items)
qed

text \<open>
  C7: when the pages before page \<open>p\<close> are full (at least 100 items) and page \<open>p\<close> has
  fewer than 100 items, possibly none, the fetcher returns: its result is the concatenation
  of the pages 1 to \<open>p\<close>, and the requests it made are the pages 1, 2, ..., \<open>p\<close> in this
  order, each with page size 100.
\<close>

theorem fetchAllIssues_pages:
  assumes "1 \<le> p"
    and "\<forall>j. 1 \<le> j \<and> j < p \<longrightarrow> (\<exists>xs. src j perPage = Page xs \<and> perPage \<le> length xs)"
    and "src p perPage = Page ys" and "length ys < perPage"
  shows "fetchAllIssues src =
           Some (Inr (concat (map (pageItems src) [1..<p]) @ ys),
                 map (\<lambda>j. (j, 100)) [1..<Suc p])"
proof -
  have "fetchAllIssues src =
          fetchLoop src p (concat (map (pageItems src) [1..<p])) (map (\<lambda>j. (j, perPage)) [1..<p])"
    unfolding fetchAllIssues_def
    using fetchLoop_pages [where page = 1 and p = p and src = src and acc = "[]" and reqs = "[]"]
      assms(1,2)
    by simp
  also have "\<dots> = Some (Inr (concat (map (pageItems src) [1..<p]) @ ys),
                 map (\<lambda>j. (j, perPage)) [1..<p] @ [(p, perPage)])"
    using assms(3,4) by (rule fetchLoop_last)
  finally show ?thesis using assms(1) by (simp add: perPage_def)
qed

theorem fetchAllIssues_pages_witness:
  "fetchAllIssues exSource = Some (Inr (replicate 100 7 @ [8, 9]), [(1, 100), (2, 100)])"
proof -
  have 1: "(1::nat) \<le> 2" by simp
  have 2: "\<forall>j. 1 \<le> j \<and> j < 2 \<longrightarrow> (\<exists>xs. exSource j perPage = Page xs \<and> perPage \<le> length xs)"
    by (auto simp: exSource_def)
  have 3: "exSource 2 perPage = Page [8, 9]" by (simp add: exSource_def)
  have 4: "length [8, 9 :: nat] < perPage" by (simp add: perPage_def)
  have 5: "[Suc 0..<2] = [Suc 0]" "[Suc 0..<3] = [Suc 0, 2]" by (simp_all add: upt_conv_Cons)
  show ?thesis
    using fetchAllIssues_pages [where p = 2 and src = exSource and ys = "[8, 9]"] 1 2 3 4
    by (simp add: 5 pageItems_def exSource_def perPage_def)
qed

section \<open>Properties of the document updater\<close>

lemma markerText_not_Nil: "markerText \<noteq> []"
  by (simp add: markerText_def)

lemma removeIssuesSection_no_marker:
  "\<not> sublist markerText doc \<Longrightarrow> removeIssuesSection doc = doc"
proof (induction doc)
  case Nil
  then show ?case by simp
next
  case (Cons ch cs)
  then have "\<not> prefix markerText (ch # cs)" "\<not> sublist markerText cs"
    by (auto simp: sublist_Cons_right)
  with Cons.IH show ?case by simp
qed

lemma skipToHashes_region:
  assumes "\<not> sublist ''##'' (body @ take 1 post)" and "post = [] \<or> prefix ''##'' post"
  shows "skipToHashes (body @ post) = post"
  using assms
proof (induction body)
  case Nil
  then show ?case by (cases post) auto
next
  case (Cons b bs)
  have "\<not> prefix ''##'' ((b # bs) @ take 1 post)"
    using Cons.prems(1) by (auto simp: sublist_Cons_right)
  then have np: "\<not> prefix ''##'' (b # bs @ post)"
    by (cases bs; cases post) auto
  have "\<not> sublist ''##'' (bs @ take 1 post)"
    using Cons.prems(1) by (auto simp: sublist_Cons_right)
  with Cons.IH Cons.prems(2) np show ?case by simp
qed

lemma prefix_short:
  "prefix m (xs @ ys) \<Longrightarrow> length m \<le> length xs \<Longrightarrow> prefix m xs"
  by (metis prefix_append prefix_length_prefix prefixI prefix_order.dual_order.refl)

lemma removeIssuesSection_first_marker:
  assumes "\<not> sublist markerText (pre @ butlast markerText)"
  shows "removeIssuesSection (pre @ markerText @ rest) = pre @ skipToHashes rest"
  using assms
proof (induction pre)
  case Nil
  obtain m ms where m: "markerText = m # ms" using markerText_not_Nil by (cases markerText) auto
  have "removeIssuesSection (markerText @ rest)
          = skipToHashes (drop (length markerText) (markerText @ rest))"
    by (simp add: m)
  then show ?case by simp
next
  case (Cons a as)
  have split: "(a # as) @ markerText @ rest
          = ((a # as) @ butlast markerText) @ ([last markerText] @ rest)"
    using markerText_not_Nil by simp
  have "\<not> prefix markerText ((a # as) @ markerText @ rest)"
  proof
    assume "prefix markerText ((a # as) @ markerText @ rest)"
    then have "prefix markerText (((a # as) @ butlast markerText) @ ([last markerText] @ rest))"
      by (simp only: split)
    moreover have "length markerText \<le> length ((a # as) @ butlast markerText)"
      by simp
    ultimately have "prefix markerText ((a # as) @ butlast markerText)"
      by (rule prefix_short)
    then have "sublist markerText ((a # as) @ butlast markerText)"
      by (rule prefix_imp_sublist)
    with Cons.prems show False by simp
  qed
  moreover have "\<not> sublist markerText (as @ butlast markerText)"
    using Cons.prems by (auto simp: sublist_Cons_right)
  ultimately show ?case using Cons.IH by simp
qed

text \<open>
  C1, as amended: without a marker in the document, the result is the document trimmed of
  white space at both ends (all the white space and line terminators of the language, the
  byte order mark and the no-break space among them), a blank line and the fragment. With a marker, where the text
  after the first marker has no \<^verbatim>\<open>##\<close> before the end of the document or before the next line
  that starts with \<^verbatim>\<open>## \<close>, the region from the marker up to there is removed and the rest is
  trimmed at both ends and followed by a blank line and the fragment. A missing document is
  replaced by the placeholder first. Nothing is said about a \<^verbatim>\<open>##\<close> elsewhere after the
  marker.
\<close>

theorem updateReadme_region:
  "(\<not> sublist markerText doc \<longrightarrow>
      updateReadme (Some doc) frag = trim doc @ nl @ nl @ frag)
   \<and> (doc = pre @ markerText @ body @ post
        \<and> \<not> sublist markerText (pre @ butlast markerText)
        \<and> \<not> sublist ''##'' (body @ take 1 post)
        \<and> (post = [] \<or> (prefix ''## '' post \<and> body \<noteq> [] \<and> last body = CHR 0x0A)) \<longrightarrow>
      updateReadme (Some doc) frag = trim (pre @ post) @ nl @ nl @ frag)
   \<and> updateReadme None frag = updateReadme (Some placeholderReadme) frag"
proof (intro conjI impI)
  assume "\<not> sublist markerText doc"
  then show "updateReadme (Some doc) frag = trim doc @ nl @ nl @ frag"
    by (simp add: updateReadme_def removeIssuesSection_no_marker)
next
  assume h: "doc = pre @ markerText @ body @ post
        \<and> \<not> sublist markerText (pre @ butlast markerText)
        \<and> \<not> sublist ''##'' (body @ take 1 post)
        \<and> (post = [] \<or> (prefix ''## '' post \<and> body \<noteq> [] \<and> last body = CHR 0x0A))"
  then have "post = [] \<or> prefix ''##'' post"
    by (auto simp: prefix_def)
  with h have "skipToHashes (body @ post) = post"
    by (intro skipToHashes_region) auto
  with h have "removeIssuesSection doc = pre @ post"
    by (simp add: removeIssuesSection_first_marker)
  then show "updateReadme (Some doc) frag = trim (pre @ post) @ nl @ nl @ frag"
    by (simp add: updateReadme_def)
next
  show "updateReadme None frag = updateReadme (Some placeholderReadme) frag"
    by (simp add: updateReadme_def)
qed

theorem updateReadme_region_witness:
  "updateReadme (Some exLeadingBlank) ''F'' = ''# Title'' @ nl @ nl @ ''F''
   \<and> updateReadme (Some exByteOrderMark) ''F'' = ''# Title'' @ nl @ nl @ ''F''
   \<and> updateReadme (Some exReadme) ''F''
       = ''# Title'' @ nl @ nl @ ''## License'' @ nl @ ''MIT'' @ nl @ nl @ ''F''
   \<and> updateReadme None ''F''
       = ''# Project Title'' @ nl @ nl @ ''Welcome to this project!'' @ nl @ nl @ ''F''"
proof -
  have 1: "\<not> sublist markerText exLeadingBlank"
    by code_simp
  have 2: "exReadme = (''  # Title'' @ nl @ nl) @ markerText @ (nl @ nl @ ''> old header'' @ nl @ nl)
             @ (''## License'' @ nl @ ''MIT'' @ nl)"
    by (simp add: exReadme_def)
  have 3: "\<not> sublist markerText ((''  # Title'' @ nl @ nl) @ butlast markerText)"
    by code_simp
  have 4: "\<not> sublist ''##'' ((nl @ nl @ ''> old header'' @ nl @ nl)
             @ take 1 (''## License'' @ nl @ ''MIT'' @ nl))"
    by code_simp
  have 5: "prefix ''## '' (''## License'' @ nl @ ''MIT'' @ nl)"
    "nl @ nl @ ''> old header'' @ nl @ nl \<noteq> []"
    "last (nl @ nl @ ''> old header'' @ nl @ nl) = CHR 0x0A"
    by (simp_all add: nl_def)
  have 6: "trim exLeadingBlank = ''# Title''"
    "trim ((''  # Title'' @ nl @ nl) @ (''## License'' @ nl @ ''MIT'' @ nl))
       = ''# Title'' @ nl @ nl @ ''## License'' @ nl @ ''MIT''"
    by code_simp+
  have 7: "updateReadme (Some placeholderReadme) ''F''
       = ''# Project Title'' @ nl @ nl @ ''Welcome to this project!'' @ nl @ nl @ ''F''"
    by code_simp
  have 8: "\<not> sublist markerText exByteOrderMark" "trim exByteOrderMark = ''# Title''"
    by code_simp+
  show ?thesis
    using updateReadme_region [where doc = exLeadingBlank and frag = "''F''" and pre = "[]"
        and body = "[]" and post = "[]"]
      updateReadme_region [where doc = exReadme and frag = "''F''"
        and pre = "''  # Title'' @ nl @ nl" and body = "nl @ nl @ ''> old header'' @ nl @ nl"
        and post = "''## License'' @ nl @ ''MIT'' @ nl"]
      updateReadme_region [where doc = exByteOrderMark and frag = "''F''" and pre = "[]"
        and body = "[]" and post = "[]"]
      1 2 3 4 5 6 7 8
    by simp
qed

lemma trimEnd_exLeadingBlank: "trimEnd exLeadingBlank = nl @ ''# Title''"
  by code_simp

lemma updateReadme_exLeadingBlank:
  "updateReadme (Some exLeadingBlank) ''F'' = ''# Title'' @ nl @ nl @ ''F''"
  by code_simp

text \<open>
  The lookahead \<^verbatim>\<open>##\<close> of the pattern also matches inside \<^verbatim>\<open>###\<close>: the region ends at the
  first subsection heading of a fragment written before, and the old subsections stay in
  the document.
\<close>

lemma updateReadme_stale_subsection:
  "updateReadme (Some exStale) ''F''
     = ''# Title'' @ nl @ nl @ ''### Old statistics'' @ nl @ nl @ ''F''"
  by code_simp

text \<open>
  C1, as stated, fails: \<^verbatim>\<open>trim\<close> also removes the white space at the start of the
  document, so a document that begins with a blank line loses it, although it holds no
  marker.
\<close>

theorem leading_whitespace_counterexample:
  "\<not> markerScopedUpdate exLeadingBlank ''F'' (updateReadme (Some exLeadingBlank) ''F'')"
proof
  assume "markerScopedUpdate exLeadingBlank ''F'' (updateReadme (Some exLeadingBlank) ''F'')"
  then obtain pre region post where
    d: "exLeadingBlank = pre @ region @ post" and
    r: "region = [] \<or> prefix markerText region" and
    o: "''# Title'' @ nl @ nl @ ''F'' = trimEnd (pre @ post) @ nl @ nl @ ''F''"
    unfolding markerScopedUpdate_def updateReadme_exLeadingBlank by blast
  from o have t: "trimEnd (pre @ post) = ''# Title''"
    by (metis append_same_eq)
  from r show False
  proof
    assume "region = []"
    with d t have "trimEnd exLeadingBlank = ''# Title''" by simp
    then show False by (simp add: trimEnd_exLeadingBlank nl_def)
  next
    assume "prefix markerText region"
    then have "length markerText \<le> length region" by (rule prefix_length_le)
    also have "\<dots> \<le> length exLeadingBlank" by (simp add: d)
    finally show False by (simp add: markerText_def exLeadingBlank_def nl_def)
  qed
qed


end
